theory Spec2Isabelle
  imports Main
begin

section \<open>The cart of \<open>src/contexts/CartContext.tsx\<close>\<close>

text \<open>
  A cart line is the interface \<open>CartItem\<close>. JavaScript numbers are modelled as
  integers (quantities, stock and prices in cents are whole numbers in this shop), and
  the optional field \<open>imageBase64?: string | null\<close> keeps its three shapes.
\<close>

datatype image = Undefined | Null | Image string

record CartItem =
  productId :: string
  name :: string
  priceCents :: int
  imageBase64 :: image
  quantity :: int
  stock :: int

text \<open>
  The product snapshot handed to \<open>addToCart\<close>:
  \<open>{ id; name; priceCents; imageBase64?; stock }\<close>. Its fields carry the suffix
  \<open>_p\<close>, since \<open>id\<close> and the names of the cart line are taken.
\<close>

record product =
  id_p :: string
  name_p :: string
  priceCents_p :: int
  imageBase64_p :: image
  stock_p :: int

type_synonym cart = "CartItem list"

subsection \<open>The state updaters\<close>

text \<open>
  Each operation of the context hands \<open>setItems\<close> a function from the previous
  items to the next ones. These are those functions, in the source's case order.
  \<open>addToCart\<close> has the default \<open>quantity = 1\<close> at its call sites that give none.
\<close>

definition addToCart :: "product \<Rightarrow> int \<Rightarrow> cart \<Rightarrow> cart" where
  "addToCart product qty prevItems =
     (case find (\<lambda>item. productId item = id_p product) prevItems of
        Some existingItem \<Rightarrow>
          if qty > stock_p product then prevItems
          else map (\<lambda>item. if productId item = id_p product
                            then item\<lparr>quantity := qty\<rparr> else item) prevItems
      | None \<Rightarrow>
          prevItems @
            [\<lparr>productId = id_p product, name = name_p product,
              priceCents = priceCents_p product, imageBase64 = imageBase64_p product,
              quantity = qty, stock = stock_p product\<rparr>])"

definition removeFromCart :: "string \<Rightarrow> cart \<Rightarrow> cart" where
  "removeFromCart pid prevItems = filter (\<lambda>item. productId item \<noteq> pid) prevItems"

definition updateQuantity :: "string \<Rightarrow> int \<Rightarrow> cart \<Rightarrow> cart" where
  "updateQuantity pid qty prevItems =
     (if qty \<le> 0 then removeFromCart pid prevItems
      else map (\<lambda>item. if productId item = pid
                        then (if qty > stock item then item else item\<lparr>quantity := qty\<rparr>)
                        else item) prevItems)"

definition clearCart :: "cart \<Rightarrow> cart" where
  "clearCart prevItems = []"

text \<open>
  React compares the array an updater returns with the one it was given by reference.
  Only \<open>addToCart\<close> can return \<open>prevItems\<close> itself (its \<open>return prevItems\<close>);
  \<open>map\<close>, \<open>filter\<close>, the spread and the literal \<open>[]\<close> build a new array.
\<close>

definition addToCart_returns_prev :: "product \<Rightarrow> int \<Rightarrow> cart \<Rightarrow> bool" where
  "addToCart_returns_prev product qty prevItems =
     (case find (\<lambda>item. productId item = id_p product) prevItems of
        Some existingItem \<Rightarrow> qty > stock_p product
      | None \<Rightarrow> False)"

subsection \<open>Sequences of operations\<close>

datatype cart_op =
    AddToCart product int
  | UpdateQuantity string int
  | RemoveFromCart string
  | ClearCart

fun apply_op :: "cart_op \<Rightarrow> cart \<Rightarrow> cart" where
  "apply_op (AddToCart product qty) c = addToCart product qty c"
| "apply_op (UpdateQuantity pid qty) c = updateQuantity pid qty c"
| "apply_op (RemoveFromCart pid) c = removeFromCart pid c"
| "apply_op ClearCart c = clearCart c"

definition cart_ops :: "cart_op list \<Rightarrow> cart \<Rightarrow> cart" where
  "cart_ops ops c = foldl (\<lambda>acc op. apply_op op acc) c ops"

definition within_stock :: "CartItem \<Rightarrow> bool" where
  "within_stock item = (1 \<le> quantity item \<and> quantity item \<le> stock item)"

section \<open>The provider: identity, items and the persistent store\<close>

text \<open>
  \<open>CartProvider\<close> holds two pieces of React state, \<open>userId\<close> (\<open>null\<close> for a
  guest) and \<open>items\<close>, and reads and writes the browser's \<open>localStorage\<close>. The
  store maps a key to a serialised cart; \<open>JSON.parse (JSON.stringify items)\<close> gives
  the items back, so the model stores the cart itself.
\<close>

record provider =
  userId :: "string option"
  items :: cart
  localStorage :: "string \<rightharpoonup> cart"

text \<open>\<open>userId ? `cart_${userId}` : 'cart_guest'\<close>: the empty string is falsy too.\<close>

definition getCartKey :: "string option \<Rightarrow> string" where
  "getCartKey uid =
     (case uid of
        None \<Rightarrow> ''cart_guest''
      | Some u \<Rightarrow> if u = [] then ''cart_guest'' else ''cart_'' @ u)"

text \<open>
  The first effect (dependencies \<open>[userId]\<close>) reads the store and calls
  \<open>setItems (saved ? JSON.parse saved : [])\<close>; \<open>load_effect\<close> is the array it
  passes. The second effect (dependencies \<open>[items, userId]\<close>) writes the rendered items
  under the key of the rendered user, unless the user is \<open>null\<close>.
\<close>

definition load_effect :: "provider \<Rightarrow> cart" where
  "load_effect st =
     (case localStorage st (getCartKey (userId st)) of
        Some saved \<Rightarrow> saved
      | None \<Rightarrow> [])"

definition persist_effect :: "provider \<Rightarrow> provider" where
  "persist_effect st =
     (if userId st \<noteq> None
      then st\<lparr>localStorage := (localStorage st)(getCartKey (userId st) \<mapsto> items st)\<rparr>
      else st)"

text \<open>
  A call of \<open>setItems\<close> with a new array re-renders the provider; \<open>items\<close> has
  changed and \<open>userId\<close> has not, so only the second effect runs.
\<close>

definition commit_items :: "cart \<Rightarrow> provider \<Rightarrow> provider" where
  "commit_items newItems st = persist_effect (st\<lparr>items := newItems\<rparr>)"

text \<open>
  \<open>setUserId\<close> queues an updater, which writes the current items under the current
  key (unless the current user is \<open>null\<close>) and returns \<open>[]\<close>, and then queues the new
  user id. React renders once with both. When the user id is the one already held, only
  \<open>items\<close> has changed (a new empty array), and the second effect alone runs. When
  it differs, the first effect reads the store for the new key and queues the loaded
  items, the second effect writes the rendered (empty) items under the new key, and the
  render that follows, with the loaded items, runs the second effect again.
  \<open>mount\<close> is the first render, where both effects run with a \<open>null\<close> user.
\<close>

definition setUserId :: "string option \<Rightarrow> provider \<Rightarrow> provider" where
  "setUserId newUserId st =
     (let flushed =
            (if userId st \<noteq> None
             then st\<lparr>localStorage :=
                      (localStorage st)(getCartKey (userId st) \<mapsto> items st)\<rparr>
             else st);
          rendered = flushed\<lparr>items := [], userId := newUserId\<rparr>
      in if newUserId = userId st then persist_effect rendered
         else commit_items (load_effect rendered) (persist_effect rendered))"

definition mount :: "(string \<rightharpoonup> cart) \<Rightarrow> provider" where
  "mount storage =
     (let rendered = \<lparr>userId = None, items = [], localStorage = storage\<rparr>
      in commit_items (load_effect rendered) (persist_effect rendered))"

text \<open>
  The operations of the context, on the provider: the updater runs on the current
  items; when it returns the array it was given, React keeps the state and no effect
  runs. \<open>updateQuantity\<close> with a quantity of 0 or less calls \<open>removeFromCart\<close>,
  which is the \<open>filter\<close> updater inside \<open>updateQuantity\<close> above.
\<close>

fun provider_op :: "cart_op \<Rightarrow> provider \<Rightarrow> provider" where
  "provider_op (AddToCart product qty) st =
     (if addToCart_returns_prev product qty (items st) then st
      else commit_items (addToCart product qty (items st)) st)"
| "provider_op (UpdateQuantity pid qty) st =
     commit_items (updateQuantity pid qty (items st)) st"
| "provider_op (RemoveFromCart pid) st =
     commit_items (removeFromCart pid (items st)) st"
| "provider_op ClearCart st = commit_items (clearCart (items st)) st"

definition provider_ops :: "cart_op list \<Rightarrow> provider \<Rightarrow> provider" where
  "provider_ops ops st = foldl (\<lambda>acc op. provider_op op acc) st ops"

definition stored_is_memory :: "provider \<Rightarrow> bool" where
  "stored_is_memory st = (localStorage st (getCartKey (userId st)) = Some (items st))"

subsection \<open>The call and the render that follows it\<close>

text \<open>
  \<open>provider_op\<close> takes an operation together with the render and the effect it
  triggers. In the code these are two moments. The operation only hands its updater to
  \<open>setItems\<close> and returns (it returns nothing): \<open>items\<close> and the store are as they
  were, and the updater is queued. React renders afterwards: it runs the queued updaters
  in order on the committed items and, when the array they produce is not the committed
  one, commits it and runs the persistence effect.
\<close>

record scheduled =
  committed :: provider
  queued :: "cart_op list"

definition call_op :: "cart_op \<Rightarrow> scheduled \<Rightarrow> scheduled" where
  "call_op op s = s\<lparr>queued := queued s @ [op]\<rparr>"

definition updater_returns_prev :: "cart_op \<Rightarrow> cart \<Rightarrow> bool" where
  "updater_returns_prev op c =
     (case op of
        AddToCart product qty \<Rightarrow> addToCart_returns_prev product qty c
      | UpdateQuantity pid qty \<Rightarrow> False
      | RemoveFromCart pid \<Rightarrow> False
      | ClearCart \<Rightarrow> False)"

fun run_queue :: "cart_op list \<Rightarrow> cart \<times> bool \<Rightarrow> cart \<times> bool" where
  "run_queue [] acc = acc"
| "run_queue (op # ops) (c, changed) =
     run_queue ops (apply_op op c, changed \<or> \<not> updater_returns_prev op c)"

definition render :: "scheduled \<Rightarrow> scheduled" where
  "render s =
     (case run_queue (queued s) (items (committed s), False) of
        (newItems, changed) \<Rightarrow>
          \<lparr>committed = (if changed then commit_items newItems (committed s)
                         else committed s),
            queued = []\<rparr>)"

text \<open>Any interleaving of calls and renders, and the operations called in it.\<close>

datatype event = Call cart_op | Render

fun step :: "event \<Rightarrow> scheduled \<Rightarrow> scheduled" where
  "step (Call op) s = call_op op s"
| "step Render s = render s"

definition run_events :: "event list \<Rightarrow> scheduled \<Rightarrow> scheduled" where
  "run_events evs s = foldl (\<lambda>acc e. step e acc) s evs"

fun calls :: "event list \<Rightarrow> cart_op list" where
  "calls [] = []"
| "calls (Call op # evs) = op # calls evs"
| "calls (Render # evs) = calls evs"

section \<open>The order page of \<open>src/pages/OrderDetails.tsx\<close>\<close>

text \<open>
  A rejected promise carries a thrown value; the handlers read
  \<open>err instanceof Error ? err.message : fallback\<close>. The translation function
  \<open>t key fallback\<close> of the pages is a parameter.
\<close>

datatype thrown = JsError string | NotAnError

definition errorMessage_of :: "thrown \<Rightarrow> string \<Rightarrow> string" where
  "errorMessage_of err fallback =
     (case err of JsError message \<Rightarrow> message | NotAnError \<Rightarrow> fallback)"

text \<open>\<open>String.prototype.includes\<close>: a case-sensitive search for a substring.\<close>

fun startsWith :: "string \<Rightarrow> string \<Rightarrow> bool" where
  "startsWith s [] = True"
| "startsWith [] (c # cs) = False"
| "startsWith (x # xs) (c # cs) = (x = c \<and> startsWith xs cs)"

fun str_includes :: "string \<Rightarrow> string \<Rightarrow> bool" where
  "str_includes [] sub = startsWith [] sub"
| "str_includes (x # xs) sub = (startsWith (x # xs) sub \<or> str_includes xs sub)"

datatype order_status = Created | Paid | Cancelled

record OrderProduct =
  id_op :: string
  name_op :: string
  imageBase64_op :: "string option"

record OrderItem =
  id_i :: string
  productId_i :: string
  quantity_i :: int
  unitPriceCents :: int
  product_i :: OrderProduct

record Order =
  id_o :: string
  status :: order_status
  totalCents :: int
  createdAt :: string
  updatedAt :: string
  orderItems :: "OrderItem list"

text \<open>
  The state of the page: its four \<open>useState\<close> cells, the callbacks handed to
  \<open>setTimeout\<close> and not yet run (with their delay in milliseconds), and the calls
  made through \<open>apiClient\<close>, in order. The server's answers are parameters:
  \<open>getOrder\<close> and \<open>payOrder\<close> give the order (\<open>Inr\<close>) or what the promise
  rejects with (\<open>Inl\<close>).
\<close>

datatype callback = LoadOrder

datatype request = GetOrder string | PayOrder string

record order_page =
  order :: "Order option"
  loading :: bool
  error :: "string option"
  paying :: bool
  timeouts :: "(nat \<times> callback) list"
  requests :: "request list"

definition loadOrder ::
  "string option \<Rightarrow> (string \<Rightarrow> thrown + Order) \<Rightarrow> order_page \<Rightarrow> order_page" where
  "loadOrder param_id getOrder st =
     (case param_id of
        None \<Rightarrow> st
      | Some oid \<Rightarrow>
          if oid = [] then st
          else
            (let st1 = st\<lparr>loading := True, requests := requests st @ [GetOrder oid]\<rparr>
             in case getOrder oid of
                  Inr data \<Rightarrow> st1\<lparr>order := Some data, loading := False\<rparr>
                | Inl err \<Rightarrow>
                    st1\<lparr>error := Some (errorMessage_of err ''Failed to load order''),
                        loading := False\<rparr>))"

definition handlePay ::
  "(string \<Rightarrow> string \<Rightarrow> string) \<Rightarrow> (string \<Rightarrow> thrown + Order) \<Rightarrow>
   order_page \<Rightarrow> order_page" where
  "handlePay t payOrder st =
     (case order st of
        None \<Rightarrow> st
      | Some ord \<Rightarrow>
          if status ord \<noteq> Created then st
          else
            (let st1 = st\<lparr>paying := True, error := None,
                          requests := requests st @ [PayOrder (id_o ord)]\<rparr>
             in case payOrder (id_o ord) of
                  Inr updatedOrder \<Rightarrow> st1\<lparr>order := Some updatedOrder, paying := False\<rparr>
                | Inl err \<Rightarrow>
                    (let errorMessage =
                           errorMessage_of err
                             (t ''order.paymentError'' ''Failed to process payment'');
                         st2 = st1\<lparr>error := Some errorMessage\<rparr>;
                         st3 = (if str_includes errorMessage ''not found'' \<or>
                                   str_includes errorMessage ''404''
                                then st2\<lparr>timeouts := timeouts st2 @ [(1000, LoadOrder)]\<rparr>
                                else st2)
                     in st3\<lparr>paying := False\<rparr>)))"

text \<open>The oldest pending timeout fires: its callback is \<open>loadOrder\<close>.\<close>

definition run_timeout ::
  "string option \<Rightarrow> (string \<Rightarrow> thrown + Order) \<Rightarrow> order_page \<Rightarrow> order_page" where
  "run_timeout param_id getOrder st =
     (case timeouts st of
        [] \<Rightarrow> st
      | (delay, LoadOrder) # rest \<Rightarrow> loadOrder param_id getOrder (st\<lparr>timeouts := rest\<rparr>))"

section \<open>The checkout of the cart page\<close>

text \<open>
  The cart page reads \<open>items\<close> and \<open>clearCart\<close> from the cart context and keeps
  \<open>checkingOut\<close> and \<open>error\<close> itself. The calls of \<open>navigate\<close> and the bodies sent to
  \<open>apiClient.createOrder\<close> (a \<open>productId\<close> and a \<open>quantity\<close> per line) are
  recorded in order; the server's answer to \<open>createOrder\<close> is a parameter.
\<close>

record cart_page =
  cartItems :: cart
  checkingOut :: bool
  checkoutError :: "string option"
  navigations :: "string list"
  createOrderCalls :: "(string \<times> int) list list"

definition handleCheckout ::
  "bool \<Rightarrow> (string \<Rightarrow> string \<Rightarrow> string) \<Rightarrow>
   ((string \<times> int) list \<Rightarrow> thrown + Order) \<Rightarrow> cart_page \<Rightarrow> cart_page" where
  "handleCheckout isAuthenticated t createOrder st =
     (if \<not> isAuthenticated then st\<lparr>navigations := navigations st @ [''/login'']\<rparr>
      else if length (cartItems st) = 0
      then st\<lparr>checkoutError := Some (t ''cart.emptyCart'' ''Your cart is empty'')\<rparr>
      else
        (let st1 = st\<lparr>checkingOut := True, checkoutError := None\<rparr>;
             orderItems = map (\<lambda>item. (productId item, quantity item)) (cartItems st1);
             st2 = st1\<lparr>createOrderCalls := createOrderCalls st1 @ [orderItems]\<rparr>
         in case createOrder orderItems of
              Inr created \<Rightarrow>
                st2\<lparr>cartItems := clearCart (cartItems st2),
                    navigations := navigations st2 @ [''/orders/'' @ id_o created],
                    checkingOut := False\<rparr>
            | Inl err \<Rightarrow>
                st2\<lparr>checkoutError :=
                      Some (errorMessage_of err
                              (t ''cart.checkoutError''
                                 ''Failed to create order. Please try again.'')),
                    checkingOut := False\<rparr>))"

section \<open>Properties of the cart updaters\<close>

lemma find_productId_None:
  "(find (\<lambda>item. productId item = p) c = None) = (p \<notin> set (map productId c))"
  by (induction c) auto

lemma find_productId_Some:
  "p \<in> set (map productId c) \<Longrightarrow> \<exists>item. find (\<lambda>item. productId item = p) c = Some item"
  by (cases "find (\<lambda>item. productId item = p) c") (auto simp: find_productId_None)

lemma addToCart_absent:
  "id_p product \<notin> set (map productId c) \<Longrightarrow>
   addToCart product qty c =
     c @ [\<lparr>productId = id_p product, name = name_p product,
           priceCents = priceCents_p product, imageBase64 = imageBase64_p product,
           quantity = qty, stock = stock_p product\<rparr>]"
  using find_productId_None [of "id_p product" c] by (simp add: addToCart_def)

lemma addToCart_present:
  "id_p product \<in> set (map productId c) \<Longrightarrow>
   addToCart product qty c =
     (if qty > stock_p product then c
      else map (\<lambda>item. if productId item = id_p product
                        then item\<lparr>quantity := qty\<rparr> else item) c)"
  using find_productId_Some [of "id_p product" c] by (auto simp: addToCart_def)

lemma updateQuantity_keeps_within_stock:
  "\<forall>item \<in> set c. within_stock item \<Longrightarrow>
   \<forall>item \<in> set (updateQuantity pid qty c). within_stock item"
  by (auto simp: updateQuantity_def removeFromCart_def within_stock_def)

lemma removeFromCart_keeps_within_stock:
  "\<forall>item \<in> set c. within_stock item \<Longrightarrow>
   \<forall>item \<in> set (removeFromCart pid c). within_stock item"
  by (auto simp: removeFromCart_def)

lemma updateQuantity_rejects:
  "1 \<le> qty \<Longrightarrow> \<forall>item \<in> set c. productId item = pid \<longrightarrow> stock item < qty \<Longrightarrow>
   updateQuantity pid qty c = c"
  by (auto simp: updateQuantity_def intro: map_idI)

text \<open>
  Claim C1, as the specification has it: after any sequence of \<open>addToCart\<close>,
  \<open>updateQuantity\<close> and \<open>removeFromCart\<close> on the empty cart, every line has
  \<open>1 \<le> quantity \<le> stock\<close>. The branch of \<open>addToCart\<close> for a product that is not
  in the cart yet appends the requested quantity without the comparison with the stock
  that the branch for an existing line and \<open>updateQuantity\<close> make: one call with
  stock 3 and quantity 5 on the empty cart leaves a line with quantity 5 and stock 3.
\<close>

theorem addToCart_new_line_exceeds_stock:
  "cart_ops
     [AddToCart \<lparr>id_p = ''p1'', name_p = ''Star'', priceCents_p = 250,
                 imageBase64_p = Null, stock_p = 3\<rparr> 5] [] =
     [\<lparr>productId = ''p1'', name = ''Star'', priceCents = 250, imageBase64 = Null,
       quantity = 5, stock = 3\<rparr>] \<and>
   \<not> list_all within_stock
     (cart_ops
        [AddToCart \<lparr>id_p = ''p1'', name_p = ''Star'', priceCents_p = 250,
                    imageBase64_p = Null, stock_p = 3\<rparr> 5] [])"
  by (simp add: cart_ops_def addToCart_def within_stock_def)

text \<open>
  Claim C2, as the specification has it, fails: \<open>addToCart\<close> never clamps. With stock
  3 and requested quantity 5, on the empty cart the new line has quantity 5, not
  \<open>min 5 3\<close>; on a cart that holds the product with quantity 1 the line keeps
  quantity 1, not \<open>min 5 3\<close>.
\<close>

theorem addToCart_does_not_clamp:
  "map quantity
     (addToCart \<lparr>id_p = ''p1'', name_p = ''Star'', priceCents_p = 250,
                 imageBase64_p = Null, stock_p = 3\<rparr> 5 []) = [5] \<and>
   map quantity
     (addToCart \<lparr>id_p = ''p1'', name_p = ''Star'', priceCents_p = 250,
                 imageBase64_p = Null, stock_p = 3\<rparr> 5 []) \<noteq> [min 5 3] \<and>
   map quantity
     (addToCart \<lparr>id_p = ''p1'', name_p = ''Star'', priceCents_p = 250,
                 imageBase64_p = Null, stock_p = 3\<rparr> 5
        [\<lparr>productId = ''p1'', name = ''Star'', priceCents = 250, imageBase64 = Null,
          quantity = 1, stock = 3\<rparr>]) = [1] \<and>
   map quantity
     (addToCart \<lparr>id_p = ''p1'', name_p = ''Star'', priceCents_p = 250,
                 imageBase64_p = Null, stock_p = 3\<rparr> 5
        [\<lparr>productId = ''p1'', name = ''Star'', priceCents = 250, imageBase64 = Null,
          quantity = 1, stock = 3\<rparr>]) \<noteq> [min 5 3]"
  by (simp add: addToCart_def)

text \<open>
  Claim C2, amended. For a requested quantity between 1 and the snapshot's stock (where
  the request is its own minimum with the stock): when the product is absent,
  \<open>addToCart\<close> appends exactly one line that carries the snapshot and the requested
  quantity; when it is present, the quantity of its line is replaced by the request,
  not added to. A request above the snapshot's stock for a product that is present is
  refused and leaves the cart as it was. Hence two calls for the same product, on a
  cart without it, leave one line for it, with the second request as quantity.
\<close>

theorem addToCart_insert_or_replace:
  "(id_p product \<notin> set (map productId c) \<and> 1 \<le> qty \<and> qty \<le> stock_p product \<longrightarrow>
      addToCart product qty c =
        c @ [\<lparr>productId = id_p product, name = name_p product,
              priceCents = priceCents_p product, imageBase64 = imageBase64_p product,
              quantity = qty, stock = stock_p product\<rparr>] \<and>
      qty = min qty (stock_p product)) \<and>
   (id_p product \<in> set (map productId c) \<and> 1 \<le> qty \<and> qty \<le> stock_p product \<longrightarrow>
      addToCart product qty c =
        map (\<lambda>item. if productId item = id_p product
                      then item\<lparr>quantity := qty\<rparr> else item) c) \<and>
   (id_p product \<in> set (map productId c) \<and> qty > stock_p product \<longrightarrow>
      addToCart product qty c = c) \<and>
   (id_p product \<notin> set (map productId c) \<and> id_p again = id_p product \<and>
    1 \<le> qty \<and> qty \<le> stock_p product \<and> 1 \<le> qty' \<and> qty' \<le> stock_p again \<longrightarrow>
      addToCart again qty' (addToCart product qty c) =
        c @ [\<lparr>productId = id_p product, name = name_p product,
              priceCents = priceCents_p product, imageBase64 = imageBase64_p product,
              quantity = qty', stock = stock_p product\<rparr>])"
proof (intro conjI impI)
  assume a: "id_p product \<notin> set (map productId c) \<and> id_p again = id_p product \<and>
    1 \<le> qty \<and> qty \<le> stock_p product \<and> 1 \<le> qty' \<and> qty' \<le> stock_p again"
  let ?line = "\<lparr>productId = id_p product, name = name_p product,
      priceCents = priceCents_p product, imageBase64 = imageBase64_p product,
      quantity = qty, stock = stock_p product\<rparr>"
  from a have first: "addToCart product qty c = c @ [?line]"
    by (simp add: addToCart_absent)
  from a have "id_p again \<in> set (map productId (c @ [?line]))"
    by simp
  then have "addToCart again qty' (c @ [?line]) =
      map (\<lambda>item. if productId item = id_p again
                    then item\<lparr>quantity := qty'\<rparr> else item) (c @ [?line])"
    using a by (simp add: addToCart_present)
  moreover have "map (\<lambda>item. if productId item = id_p again
                    then item\<lparr>quantity := qty'\<rparr> else item) c = c"
    using a by (intro map_idI) (auto simp: image_iff)
  ultimately show "addToCart again qty' (addToCart product qty c) =
      c @ [\<lparr>productId = id_p product, name = name_p product,
            priceCents = priceCents_p product, imageBase64 = imageBase64_p product,
            quantity = qty', stock = stock_p product\<rparr>]"
    using a first by simp
qed (simp_all add: addToCart_absent addToCart_present)

theorem addToCart_insert_or_replace_witness:
  "addToCart \<lparr>id_p = ''p1'', name_p = ''Star'', priceCents_p = 250,
               imageBase64_p = Null, stock_p = 3\<rparr> 2 [] =
     [\<lparr>productId = ''p1'', name = ''Star'', priceCents = 250, imageBase64 = Null,
       quantity = 2, stock = 3\<rparr>] \<and>
   addToCart \<lparr>id_p = ''p1'', name_p = ''Comet'', priceCents_p = 300,
               imageBase64_p = Undefined, stock_p = 8\<rparr> 3
     (addToCart \<lparr>id_p = ''p1'', name_p = ''Star'', priceCents_p = 250,
                 imageBase64_p = Null, stock_p = 3\<rparr> 2 []) =
     [\<lparr>productId = ''p1'', name = ''Star'', priceCents = 250, imageBase64 = Null,
       quantity = 3, stock = 3\<rparr>] \<and>
   addToCart \<lparr>id_p = ''p1'', name_p = ''Star'', priceCents_p = 250,
               imageBase64_p = Null, stock_p = 3\<rparr> 5
     [\<lparr>productId = ''p1'', name = ''Star'', priceCents = 250, imageBase64 = Null,
       quantity = 2, stock = 3\<rparr>] =
     [\<lparr>productId = ''p1'', name = ''Star'', priceCents = 250, imageBase64 = Null,
       quantity = 2, stock = 3\<rparr>]"
  using
    addToCart_insert_or_replace
      [of "\<lparr>id_p = ''p1'', name_p = ''Star'', priceCents_p = 250,
            imageBase64_p = Null, stock_p = 3\<rparr>"
          "[]" 2
          "\<lparr>id_p = ''p1'', name_p = ''Comet'', priceCents_p = 300,
            imageBase64_p = Undefined, stock_p = 8\<rparr>" 3]
    addToCart_insert_or_replace
      [of "\<lparr>id_p = ''p1'', name_p = ''Star'', priceCents_p = 250,
            imageBase64_p = Null, stock_p = 3\<rparr>"
          "[\<lparr>productId = ''p1'', name = ''Star'', priceCents = 250,
             imageBase64 = Null, quantity = 2, stock = 3\<rparr>]" 5]
  by (simp add: addToCart_def)

text \<open>
  Claim C5, as the specification has it, fails in one point: nothing signals
  \<open>ExceedsStock\<close>. \<open>updateQuantity\<close> returns nothing and throws nothing; all it does
  is hand \<open>setItems\<close> its updater. For user \<open>u1\<close> with the line of product \<open>p1\<close>,
  quantity 2 and stock 5, the refused request for 10 leaves the cart as it was, and the
  whole provider (user, items and store) exactly as the accepted request for 2 leaves it.
\<close>

theorem updateQuantity_refusal_is_silent:
  "updateQuantity ''p1'' 10
     [\<lparr>productId = ''p1'', name = ''Star'', priceCents = 250, imageBase64 = Null,
       quantity = 2, stock = 5\<rparr>] =
     [\<lparr>productId = ''p1'', name = ''Star'', priceCents = 250, imageBase64 = Null,
       quantity = 2, stock = 5\<rparr>] \<and>
   provider_op (UpdateQuantity ''p1'' 10)
     \<lparr>userId = Some ''u1'',
       items = [\<lparr>productId = ''p1'', name = ''Star'', priceCents = 250,
                 imageBase64 = Null, quantity = 2, stock = 5\<rparr>],
       localStorage = [''cart_u1'' \<mapsto>
         [\<lparr>productId = ''p1'', name = ''Star'', priceCents = 250,
           imageBase64 = Null, quantity = 2, stock = 5\<rparr>]]\<rparr> =
   provider_op (UpdateQuantity ''p1'' 2)
     \<lparr>userId = Some ''u1'',
       items = [\<lparr>productId = ''p1'', name = ''Star'', priceCents = 250,
                 imageBase64 = Null, quantity = 2, stock = 5\<rparr>],
       localStorage = [''cart_u1'' \<mapsto>
         [\<lparr>productId = ''p1'', name = ''Star'', priceCents = 250,
           imageBase64 = Null, quantity = 2, stock = 5\<rparr>]]\<rparr>"
  by (simp add: updateQuantity_def)

text \<open>
  Claim C5, amended. \<open>updateQuantity\<close> with a quantity below 1 is \<open>removeFromCart\<close>.
  With a quantity of at least 1 that exceeds the stock recorded on a line of the
  product, that line stays as it is, and when every line of the product is exceeded
  (the one line, in a cart with one line per product) the whole cart stays as it is:
  the request is refused, not clamped. The refusal is silent: on the provider it is
  the commit of the unchanged items, the same state that the accepted request for the
  line's current quantity gives.
\<close>

theorem updateQuantity_remove_or_reject:
  "(qty < 1 \<longrightarrow> updateQuantity pid qty c = removeFromCart pid c) \<and>
   (1 \<le> qty \<and> i < length c \<and> productId (c ! i) = pid \<and> stock (c ! i) < qty \<longrightarrow>
      length (updateQuantity pid qty c) = length c \<and> updateQuantity pid qty c ! i = c ! i) \<and>
   (1 \<le> qty \<and> (\<forall>item \<in> set c. productId item = pid \<longrightarrow> stock item < qty) \<longrightarrow>
      updateQuantity pid qty c = c) \<and>
   (1 \<le> qty \<and> 1 \<le> qty' \<and>
    (\<forall>item \<in> set (items st). productId item = pid \<longrightarrow>
        stock item < qty \<and> quantity item = qty' \<and> qty' \<le> stock item) \<longrightarrow>
      provider_op (UpdateQuantity pid qty) st = commit_items (items st) st \<and>
      provider_op (UpdateQuantity pid qty) st = provider_op (UpdateQuantity pid qty') st)"
proof (intro conjI impI)
  assume h: "1 \<le> qty \<and> 1 \<le> qty' \<and>
    (\<forall>item \<in> set (items st). productId item = pid \<longrightarrow>
        stock item < qty \<and> quantity item = qty' \<and> qty' \<le> stock item)"
  then have refused: "updateQuantity pid qty (items st) = items st"
    by (intro updateQuantity_rejects) auto
  from h have accepted: "updateQuantity pid qty' (items st) = items st"
    by (auto simp: updateQuantity_def intro!: map_idI)
  from refused show "provider_op (UpdateQuantity pid qty) st = commit_items (items st) st"
    by simp
  from refused accepted
  show "provider_op (UpdateQuantity pid qty) st = provider_op (UpdateQuantity pid qty') st"
    by simp
qed (auto simp: updateQuantity_def intro: map_idI)

theorem updateQuantity_remove_or_reject_witness:
  "updateQuantity ''p1'' 10
     [\<lparr>productId = ''p1'', name = ''Star'', priceCents = 250, imageBase64 = Null,
       quantity = 2, stock = 5\<rparr>] =
     [\<lparr>productId = ''p1'', name = ''Star'', priceCents = 250, imageBase64 = Null,
       quantity = 2, stock = 5\<rparr>] \<and>
   updateQuantity ''p1'' 0
     [\<lparr>productId = ''p1'', name = ''Star'', priceCents = 250, imageBase64 = Null,
       quantity = 2, stock = 5\<rparr>] =
     removeFromCart ''p1''
       [\<lparr>productId = ''p1'', name = ''Star'', priceCents = 250, imageBase64 = Null,
         quantity = 2, stock = 5\<rparr>] \<and>
   removeFromCart ''p1''
     [\<lparr>productId = ''p1'', name = ''Star'', priceCents = 250, imageBase64 = Null,
       quantity = 2, stock = 5\<rparr>] = [] \<and>
   provider_op (UpdateQuantity ''p1'' 10)
     \<lparr>userId = Some ''u1'',
       items = [\<lparr>productId = ''p1'', name = ''Star'', priceCents = 250,
                 imageBase64 = Null, quantity = 2, stock = 5\<rparr>],
       localStorage = Map.empty\<rparr> =
   provider_op (UpdateQuantity ''p1'' 2)
     \<lparr>userId = Some ''u1'',
       items = [\<lparr>productId = ''p1'', name = ''Star'', priceCents = 250,
                 imageBase64 = Null, quantity = 2, stock = 5\<rparr>],
       localStorage = Map.empty\<rparr>"
  using
    updateQuantity_remove_or_reject
      [where qty = 10 and qty' = 2 and i = 0 and pid = "''p1''" and
         c = "[\<lparr>productId = ''p1'', name = ''Star'', priceCents = 250,
               imageBase64 = Null, quantity = 2, stock = 5\<rparr>]" and
         st = "\<lparr>userId = Some ''u1'',
                items = [\<lparr>productId = ''p1'', name = ''Star'', priceCents = 250,
                          imageBase64 = Null, quantity = 2, stock = 5\<rparr>],
                localStorage = Map.empty\<rparr>"]
    updateQuantity_remove_or_reject
      [where qty = 0 and qty' = 2 and i = 0 and pid = "''p1''" and
         c = "[\<lparr>productId = ''p1'', name = ''Star'', priceCents = 250,
               imageBase64 = Null, quantity = 2, stock = 5\<rparr>]" and
         st = "\<lparr>userId = Some ''u1'',
                items = [\<lparr>productId = ''p1'', name = ''Star'', priceCents = 250,
                          imageBase64 = Null, quantity = 2, stock = 5\<rparr>],
                localStorage = Map.empty\<rparr>"]
  by (simp add: removeFromCart_def updateQuantity_def)

text \<open>
  Claim C10. When the cart holds a line for the product, \<open>addToCart\<close> keeps the
  number and order of the lines; every line keeps its product id, name, price, image
  and stock (the new snapshot's values are not used); a line of another product is
  unchanged; and the quantity of a line of this product becomes the request, unless
  the request exceeds the new snapshot's stock, when it stays.
\<close>

theorem addToCart_existing_frame:
  assumes "id_p product \<in> set (map productId c)"
  shows "length (addToCart product qty c) = length c \<and>
     (\<forall>i < length c.
        productId (addToCart product qty c ! i) = productId (c ! i) \<and>
        name (addToCart product qty c ! i) = name (c ! i) \<and>
        priceCents (addToCart product qty c ! i) = priceCents (c ! i) \<and>
        imageBase64 (addToCart product qty c ! i) = imageBase64 (c ! i) \<and>
        stock (addToCart product qty c ! i) = stock (c ! i) \<and>
        (productId (c ! i) \<noteq> id_p product \<longrightarrow> addToCart product qty c ! i = c ! i) \<and>
        (productId (c ! i) = id_p product \<longrightarrow>
           quantity (addToCart product qty c ! i) =
             (if qty > stock_p product then quantity (c ! i) else qty)))"
  using assms by (simp add: addToCart_present)

theorem addToCart_existing_frame_witness:
  "addToCart \<lparr>id_p = ''p2'', name_p = ''Comet'', priceCents_p = 300,
               imageBase64_p = Image ''data:image/png;base64,AAAA'', stock_p = 9\<rparr> 4
     [\<lparr>productId = ''p1'', name = ''Star'', priceCents = 250, imageBase64 = Null,
       quantity = 1, stock = 5\<rparr>,
      \<lparr>productId = ''p2'', name = ''Bell'', priceCents = 120, imageBase64 = Undefined,
       quantity = 2, stock = 6\<rparr>] =
     [\<lparr>productId = ''p1'', name = ''Star'', priceCents = 250, imageBase64 = Null,
       quantity = 1, stock = 5\<rparr>,
      \<lparr>productId = ''p2'', name = ''Bell'', priceCents = 120, imageBase64 = Undefined,
       quantity = 4, stock = 6\<rparr>]"
  using
    addToCart_existing_frame
      [of "\<lparr>id_p = ''p2'', name_p = ''Comet'', priceCents_p = 300,
            imageBase64_p = Image ''data:image/png;base64,AAAA'', stock_p = 9\<rparr>"
          "[\<lparr>productId = ''p1'', name = ''Star'', priceCents = 250, imageBase64 = Null,
             quantity = 1, stock = 5\<rparr>,
            \<lparr>productId = ''p2'', name = ''Bell'', priceCents = 120,
             imageBase64 = Undefined, quantity = 2, stock = 6\<rparr>]" 4]
  by (simp add: addToCart_def)

section \<open>Properties of the provider\<close>

lemma commit_items_stored:
  "userId st = Some u \<Longrightarrow>
   userId (commit_items c st) = Some u \<and> items (commit_items c st) = c \<and>
   stored_is_memory (commit_items c st)"
  by (simp add: commit_items_def persist_effect_def stored_is_memory_def)

lemma addToCart_returns_prev_same:
  "addToCart_returns_prev product qty c \<Longrightarrow> addToCart product qty c = c"
  by (auto simp: addToCart_returns_prev_def addToCart_def split: option.splits)

lemma provider_op_items: "items (provider_op op st) = apply_op op (items st)"
  by (cases op) (auto simp: commit_items_def persist_effect_def addToCart_returns_prev_same)

lemma provider_op_userId: "userId (provider_op op st) = userId st"
  by (cases op) (auto simp: commit_items_def persist_effect_def)

lemma provider_op_stored:
  "userId st = Some u \<Longrightarrow> stored_is_memory st \<Longrightarrow> stored_is_memory (provider_op op st)"
  by (cases op) (auto simp: commit_items_stored)

lemma provider_ops_stored:
  "userId st = Some u \<Longrightarrow> stored_is_memory st \<Longrightarrow>
   userId (provider_ops ops st) = Some u \<and> stored_is_memory (provider_ops ops st)"
  unfolding provider_ops_def
  by (induction ops arbitrary: st) (simp_all add: provider_op_stored provider_op_userId)

lemma provider_ops_items: "items (provider_ops ops st) = cart_ops ops (items st)"
  unfolding provider_ops_def cart_ops_def
  by (induction ops arbitrary: st) (simp_all add: provider_op_items)

lemma setUserId_stored:
  "userId (setUserId (Some u) st) = Some u \<and> stored_is_memory (setUserId (Some u) st)"
  by (simp add: setUserId_def Let_def commit_items_def persist_effect_def stored_is_memory_def)

lemma cart_ops_append: "cart_ops (xs @ ys) c = cart_ops ys (cart_ops xs c)"
  by (simp add: cart_ops_def)

lemma cart_ops_Cons: "cart_ops (x # xs) c = cart_ops xs (apply_op x c)"
  by (simp add: cart_ops_def)

lemma run_queue_fst: "fst (run_queue ops (c, ch)) = cart_ops ops c"
  by (induction ops arbitrary: c ch) (simp_all add: cart_ops_def)

lemma updater_returns_prev_same: "updater_returns_prev op c \<Longrightarrow> apply_op op c = c"
  by (cases op) (simp_all add: updater_returns_prev_def addToCart_returns_prev_same)

lemma run_queue_unchanged:
  "\<not> snd (run_queue ops (c, ch)) \<Longrightarrow> cart_ops ops c = c \<and> \<not> ch"
proof (induction ops arbitrary: c ch)
  case Nil
  then show ?case by (simp add: cart_ops_def)
next
  case (Cons op ops)
  from Cons.prems
  have "\<not> snd (run_queue ops (apply_op op c, ch \<or> \<not> updater_returns_prev op c))"
    by simp
  from Cons.IH [OF this]
  have a: "cart_ops ops (apply_op op c) = apply_op op c" and b: "\<not> ch"
    and r: "updater_returns_prev op c"
    by auto
  from r have "apply_op op c = c" by (rule updater_returns_prev_same)
  with a b show ?case by (simp add: cart_ops_def)
qed

lemma render_stored:
  assumes "userId (committed s) = Some u" and "stored_is_memory (committed s)"
  shows "userId (committed (render s)) = Some u \<and>
     stored_is_memory (committed (render s)) \<and>
     items (committed (render s)) = cart_ops (queued s) (items (committed s)) \<and>
     queued (render s) = []"
proof (cases "snd (run_queue (queued s) (items (committed s), False))")
  case True
  then show ?thesis
    using assms run_queue_fst [of "queued s" "items (committed s)" False]
    by (auto simp: render_def commit_items_stored split: prod.splits)
next
  case False
  then show ?thesis
    using assms run_queue_unchanged [of "queued s" "items (committed s)" False]
    by (auto simp: render_def split: prod.splits)
qed

lemma run_events_stored:
  "userId (committed s) = Some u \<Longrightarrow> stored_is_memory (committed s) \<Longrightarrow>
   userId (committed (run_events evs s)) = Some u \<and>
   stored_is_memory (committed (run_events evs s)) \<and>
   cart_ops (queued (run_events evs s)) (items (committed (run_events evs s))) =
     cart_ops (calls evs) (cart_ops (queued s) (items (committed s)))"
proof (induction evs arbitrary: s)
  case Nil
  then show ?case by (simp add: run_events_def cart_ops_def)
next
  case (Cons e evs)
  show ?case
  proof (cases e)
    case (Call op)
    have "userId (committed (call_op op s)) = Some u"
      "stored_is_memory (committed (call_op op s))"
      using Cons.prems by (simp_all add: call_op_def)
    from Cons.IH [OF this] show ?thesis
      using Call
      by (simp add: run_events_def call_op_def cart_ops_append cart_ops_Cons cart_ops_def)
  next
    case Render
    from render_stored [OF Cons.prems]
    have a: "userId (committed (render s)) = Some u"
      "stored_is_memory (committed (render s))"
      and b: "items (committed (render s)) = cart_ops (queued s) (items (committed s))"
      and c: "queued (render s) = []" by auto
    from Cons.IH [OF a] show ?thesis
      using Render b c by (simp add: run_events_def cart_ops_def)
  qed
qed

text \<open>An operation with its render, as \<open>provider_op\<close> has it, is the call and then the render.\<close>

lemma provider_op_call_render:
  "provider_op op st = committed (render (call_op op \<lparr>committed = st, queued = []\<rparr>))"
  by (cases op)
    (auto simp: render_def call_op_def updater_returns_prev_def addToCart_returns_prev_same)

text \<open>
  Claim C3, as the specification has it: a second \<open>setUserId\<close> with the key already
  active changes nothing. In the code the updater empties \<open>items\<close> whatever the new
  key is; with the key unchanged the loading effect does not run, and the persistence
  effect then writes the empty array over the snapshot the updater had just saved. For
  user \<open>u1\<close> with one stored line: the first call loads the line, the second leaves
  an empty cart in memory and in the store.
\<close>

theorem setUserId_same_key_empties_cart:
  "items (setUserId (Some ''u1'')
      (mount [''cart_u1'' \<mapsto>
         [\<lparr>productId = ''p1'', name = ''Star'', priceCents = 250, imageBase64 = Null,
           quantity = 2, stock = 3\<rparr>]])) =
     [\<lparr>productId = ''p1'', name = ''Star'', priceCents = 250, imageBase64 = Null,
       quantity = 2, stock = 3\<rparr>] \<and>
   localStorage (setUserId (Some ''u1'')
      (mount [''cart_u1'' \<mapsto>
         [\<lparr>productId = ''p1'', name = ''Star'', priceCents = 250, imageBase64 = Null,
           quantity = 2, stock = 3\<rparr>]])) (getCartKey (Some ''u1'')) =
     Some [\<lparr>productId = ''p1'', name = ''Star'', priceCents = 250, imageBase64 = Null,
            quantity = 2, stock = 3\<rparr>] \<and>
   items (setUserId (Some ''u1'') (setUserId (Some ''u1'')
      (mount [''cart_u1'' \<mapsto>
         [\<lparr>productId = ''p1'', name = ''Star'', priceCents = 250, imageBase64 = Null,
           quantity = 2, stock = 3\<rparr>]]))) = [] \<and>
   localStorage (setUserId (Some ''u1'') (setUserId (Some ''u1'')
      (mount [''cart_u1'' \<mapsto>
         [\<lparr>productId = ''p1'', name = ''Star'', priceCents = 250, imageBase64 = Null,
           quantity = 2, stock = 3\<rparr>]]))) (getCartKey (Some ''u1'')) = Some []"
  by (simp add: setUserId_def mount_def Let_def commit_items_def persist_effect_def
      load_effect_def getCartKey_def)

text \<open>
  Claim C4, as the specification has it, fails for the guest: nothing is written for a
  \<open>null\<close> user, neither by the persistence effect nor by \<open>setUserId\<close>, so a guest's
  cart of one line is empty after a switch to user \<open>u1\<close> and back.
\<close>

theorem guest_cart_lost_on_switch:
  "userId (provider_op
      (AddToCart \<lparr>id_p = ''p1'', name_p = ''Star'', priceCents_p = 250,
                  imageBase64_p = Null, stock_p = 3\<rparr> 2) (mount Map.empty)) = None \<and>
   items (provider_op
      (AddToCart \<lparr>id_p = ''p1'', name_p = ''Star'', priceCents_p = 250,
                  imageBase64_p = Null, stock_p = 3\<rparr> 2) (mount Map.empty)) =
     [\<lparr>productId = ''p1'', name = ''Star'', priceCents = 250, imageBase64 = Null,
       quantity = 2, stock = 3\<rparr>] \<and>
   items (setUserId None (setUserId (Some ''u1'')
      (provider_op
         (AddToCart \<lparr>id_p = ''p1'', name_p = ''Star'', priceCents_p = 250,
                     imageBase64_p = Null, stock_p = 3\<rparr> 2) (mount Map.empty)))) = []"
  by (simp add: setUserId_def mount_def Let_def commit_items_def persist_effect_def
      load_effect_def getCartKey_def addToCart_def addToCart_returns_prev_def)

text \<open>
  Claim C4, amended: for a user \<open>a\<close> that is not the guest and any other identity
  \<open>b\<close> (a user or the guest), switching from \<open>a\<close> to \<open>b\<close> and back restores the
  items \<open>a\<close> held, in memory and under \<open>a\<close>'s key in the store.
\<close>

theorem switch_and_back_restores:
  assumes "userId st = Some a" and "b \<noteq> Some a"
  shows "userId (setUserId (Some a) (setUserId b st)) = Some a \<and>
         items (setUserId (Some a) (setUserId b st)) = items st \<and>
         localStorage (setUserId (Some a) (setUserId b st)) (getCartKey (Some a)) =
           Some (items st)"
  using assms
  by (cases b)
    (auto simp: setUserId_def Let_def commit_items_def persist_effect_def load_effect_def)

theorem switch_and_back_restores_witness:
  "items (setUserId (Some ''u1'') (setUserId None
      \<lparr>userId = Some ''u1'',
        items = [\<lparr>productId = ''p1'', name = ''Star'', priceCents = 250,
                  imageBase64 = Null, quantity = 2, stock = 3\<rparr>],
        localStorage = Map.empty\<rparr>)) =
     [\<lparr>productId = ''p1'', name = ''Star'', priceCents = 250, imageBase64 = Null,
       quantity = 2, stock = 3\<rparr>] \<and>
   items (setUserId (Some ''u1'') (setUserId (Some ''u2'')
      \<lparr>userId = Some ''u1'',
        items = [\<lparr>productId = ''p1'', name = ''Star'', priceCents = 250,
                  imageBase64 = Null, quantity = 2, stock = 3\<rparr>],
        localStorage = Map.empty\<rparr>)) =
     [\<lparr>productId = ''p1'', name = ''Star'', priceCents = 250, imageBase64 = Null,
       quantity = 2, stock = 3\<rparr>]"
  using
    switch_and_back_restores
      [of "\<lparr>userId = Some ''u1'',
             items = [\<lparr>productId = ''p1'', name = ''Star'', priceCents = 250,
                       imageBase64 = Null, quantity = 2, stock = 3\<rparr>],
             localStorage = Map.empty\<rparr>" "''u1''" None]
    switch_and_back_restores
      [of "\<lparr>userId = Some ''u1'',
             items = [\<lparr>productId = ''p1'', name = ''Star'', priceCents = 250,
                       imageBase64 = Null, quantity = 2, stock = 3\<rparr>],
             localStorage = Map.empty\<rparr>" "''u1''" "Some ''u2''"]
  by simp

text \<open>
  Claim C6, as the specification has it, fails in two points. For the guest the
  persistence effect skips the write (\<open>userId !== null\<close>): after a guest's
  \<open>addToCart\<close> and its render the cart has a line and the store has nothing under the
  guest key. And for a signed-in user the write does not come before the operation
  returns: when \<open>addToCart\<close> returns for user \<open>u1\<close>, its updater is queued and the
  store still holds the empty cart; the line is in the store only after the render.
\<close>

theorem cart_not_persisted_for_guest_nor_at_return:
  "userId (provider_op
      (AddToCart \<lparr>id_p = ''p1'', name_p = ''Star'', priceCents_p = 250,
                  imageBase64_p = Null, stock_p = 3\<rparr> 1) (mount Map.empty)) = None \<and>
   items (provider_op
      (AddToCart \<lparr>id_p = ''p1'', name_p = ''Star'', priceCents_p = 250,
                  imageBase64_p = Null, stock_p = 3\<rparr> 1) (mount Map.empty)) =
     [\<lparr>productId = ''p1'', name = ''Star'', priceCents = 250, imageBase64 = Null,
       quantity = 1, stock = 3\<rparr>] \<and>
   localStorage (provider_op
      (AddToCart \<lparr>id_p = ''p1'', name_p = ''Star'', priceCents_p = 250,
                  imageBase64_p = Null, stock_p = 3\<rparr> 1) (mount Map.empty))
     (getCartKey None) = None \<and>
   queued (call_op
      (AddToCart \<lparr>id_p = ''p1'', name_p = ''Star'', priceCents_p = 250,
                  imageBase64_p = Null, stock_p = 3\<rparr> 1)
      \<lparr>committed = setUserId (Some ''u1'') (mount Map.empty), queued = []\<rparr>) =
     [AddToCart \<lparr>id_p = ''p1'', name_p = ''Star'', priceCents_p = 250,
                 imageBase64_p = Null, stock_p = 3\<rparr> 1] \<and>
   localStorage (committed (call_op
      (AddToCart \<lparr>id_p = ''p1'', name_p = ''Star'', priceCents_p = 250,
                  imageBase64_p = Null, stock_p = 3\<rparr> 1)
      \<lparr>committed = setUserId (Some ''u1'') (mount Map.empty), queued = []\<rparr>))
     (getCartKey (Some ''u1'')) = Some [] \<and>
   localStorage (committed (render (call_op
      (AddToCart \<lparr>id_p = ''p1'', name_p = ''Star'', priceCents_p = 250,
                  imageBase64_p = Null, stock_p = 3\<rparr> 1)
      \<lparr>committed = setUserId (Some ''u1'') (mount Map.empty), queued = []\<rparr>)))
     (getCartKey (Some ''u1'')) =
     Some [\<lparr>productId = ''p1'', name = ''Star'', priceCents = 250, imageBase64 = Null,
            quantity = 1, stock = 3\<rparr>]"
  by (simp add: call_op_def render_def setUserId_def mount_def Let_def commit_items_def
      persist_effect_def load_effect_def getCartKey_def addToCart_def
      addToCart_returns_prev_def updater_returns_prev_def)

text \<open>
  Claim C6, amended. Let a user \<open>u\<close> that is not the guest be the active identity, and
  let any calls of \<open>addToCart\<close>, \<open>updateQuantity\<close>, \<open>removeFromCart\<close> and
  \<open>clearCart\<close> and any renders follow, in any order. Then the store holds, under
  \<open>u\<close>'s key, exactly the committed items. A further call returns with the committed
  items and the store as they were; after the render that follows it, the committed
  items are the result of all the operations called, in order, and the store holds
  exactly these under \<open>u\<close>'s key.
\<close>

theorem user_cart_persisted_by_render:
  "userId (committed (run_events evs
       \<lparr>committed = setUserId (Some u) st, queued = []\<rparr>)) = Some u \<and>
   localStorage (committed (run_events evs
       \<lparr>committed = setUserId (Some u) st, queued = []\<rparr>)) (getCartKey (Some u)) =
     Some (items (committed (run_events evs
       \<lparr>committed = setUserId (Some u) st, queued = []\<rparr>))) \<and>
   committed (call_op op (run_events evs
       \<lparr>committed = setUserId (Some u) st, queued = []\<rparr>)) =
     committed (run_events evs \<lparr>committed = setUserId (Some u) st, queued = []\<rparr>) \<and>
   items (committed (render (call_op op (run_events evs
       \<lparr>committed = setUserId (Some u) st, queued = []\<rparr>)))) =
     cart_ops (calls evs @ [op]) (items (setUserId (Some u) st)) \<and>
   localStorage (committed (render (call_op op (run_events evs
       \<lparr>committed = setUserId (Some u) st, queued = []\<rparr>)))) (getCartKey (Some u)) =
     Some (cart_ops (calls evs @ [op]) (items (setUserId (Some u) st)))"
proof -
  let ?init = "\<lparr>committed = setUserId (Some u) st, queued = []\<rparr>"
  let ?s = "run_events evs ?init"
  have a0: "userId (committed ?init) = Some u"
    and b0: "stored_is_memory (committed ?init)"
    using setUserId_stored [of u st] by simp_all
  from run_events_stored [OF a0 b0, of evs]
  have a: "userId (committed ?s) = Some u" and b: "stored_is_memory (committed ?s)"
    and e: "cart_ops (queued ?s) (items (committed ?s)) =
            cart_ops (calls evs) (items (setUserId (Some u) st))"
    by (simp_all add: cart_ops_def)
  have a': "userId (committed (call_op op ?s)) = Some u"
    and b': "stored_is_memory (committed (call_op op ?s))"
    using a b by (simp_all add: call_op_def)
  from render_stored [OF a' b']
  have r: "stored_is_memory (committed (render (call_op op ?s)))"
    and ru: "userId (committed (render (call_op op ?s))) = Some u"
    and ri: "items (committed (render (call_op op ?s))) =
             cart_ops (queued ?s @ [op]) (items (committed ?s))"
    by (simp_all add: call_op_def)
  have ri': "items (committed (render (call_op op ?s))) =
             cart_ops (calls evs @ [op]) (items (setUserId (Some u) st))"
    using ri e by (simp add: cart_ops_append)
  show ?thesis
    using a b r ru ri' by (simp add: stored_is_memory_def call_op_def)
qed

section \<open>Properties of the order page\<close>

lemma startsWith_iff: "startsWith s sub = (\<exists>rest. s = sub @ rest)"
  by (induction s sub rule: startsWith.induct) auto

lemma str_includes_iff: "str_includes s sub = (\<exists>before rest. s = before @ sub @ rest)"
proof (induction s)
  case Nil
  then show ?case by (auto simp: startsWith_iff)
next
  case (Cons x xs)
  show ?case
  proof
    assume "str_includes (x # xs) sub"
    then consider "startsWith (x # xs) sub" | "str_includes xs sub" by auto
    then show "\<exists>before rest. x # xs = before @ sub @ rest"
    proof cases
      case 1
      then obtain rest where "x # xs = sub @ rest" by (auto simp: startsWith_iff)
      then have "x # xs = [] @ sub @ rest" by simp
      then show ?thesis by blast
    next
      case 2
      then obtain before rest where "xs = before @ sub @ rest" using Cons.IH by auto
      then have "x # xs = (x # before) @ sub @ rest" by simp
      then show ?thesis by blast
    qed
  next
    assume "\<exists>before rest. x # xs = before @ sub @ rest"
    then obtain before rest where e: "x # xs = before @ sub @ rest" by blast
    show "str_includes (x # xs) sub"
    proof (cases before)
      case Nil
      with e have "startsWith (x # xs) sub" by (auto simp: startsWith_iff)
      then show ?thesis by simp
    next
      case (Cons b bs)
      with e have "xs = bs @ sub @ rest" by simp
      then have "str_includes xs sub" using Cons.IH by blast
      then show ?thesis by simp
    qed
  qed
qed

text \<open>
  Claim C7. On an order cached as paid or cancelled, \<open>handlePay\<close> returns at its first
  line: the whole state of the page is unchanged, so the cached order is the same and
  no call was added to the calls made.
\<close>

theorem handlePay_terminal_noop:
  assumes "order st = Some ord" and "status ord = Paid \<or> status ord = Cancelled"
  shows "handlePay t payOrder st = st"
  using assms by (auto simp: handlePay_def)

theorem handlePay_terminal_noop_witness:
  "handlePay (\<lambda>key fallback. fallback) (\<lambda>oid. Inl (JsError ''unreachable''))
     \<lparr>order = Some \<lparr>id_o = ''o1'', status = Paid, totalCents = 500,
                     createdAt = ''2024-12-01'', updatedAt = ''2024-12-02'',
                     orderItems = []\<rparr>,
       loading = False, error = None, paying = False, timeouts = [], requests = []\<rparr> =
     \<lparr>order = Some \<lparr>id_o = ''o1'', status = Paid, totalCents = 500,
                     createdAt = ''2024-12-01'', updatedAt = ''2024-12-02'',
                     orderItems = []\<rparr>,
       loading = False, error = None, paying = False, timeouts = [], requests = []\<rparr>"
  using
    handlePay_terminal_noop
      [of "\<lparr>order = Some \<lparr>id_o = ''o1'', status = Paid, totalCents = 500,
                            createdAt = ''2024-12-01'', updatedAt = ''2024-12-02'',
                            orderItems = []\<rparr>,
              loading = False, error = None, paying = False, timeouts = [],
              requests = []\<rparr>"
          "\<lparr>id_o = ''o1'', status = Paid, totalCents = 500,
             createdAt = ''2024-12-01'', updatedAt = ''2024-12-02'', orderItems = []\<rparr>"
          "\<lambda>key fallback. fallback" "\<lambda>oid. Inl (JsError ''unreachable'')"]
  by simp

text \<open>
  Claim C8, as the specification has it, fails. A pay request that fails with the
  network error of \<open>fetch\<close> (\<open>Failed to fetch\<close>, which is how a request that never
  gets its answer ends) schedules no re-fetch, and its message is set as the page's
  error; a failure with \<open>Order not found\<close> does schedule the re-fetch, and its message
  is set as the page's error too.
\<close>

theorem handlePay_timeout_no_refetch:
  "timeouts (handlePay (\<lambda>key fallback. fallback) (\<lambda>oid. Inl (JsError ''Failed to fetch''))
     \<lparr>order = Some \<lparr>id_o = ''o1'', status = Created, totalCents = 500,
                     createdAt = ''2024-12-01'', updatedAt = ''2024-12-01'',
                     orderItems = []\<rparr>,
       loading = False, error = None, paying = False, timeouts = [], requests = []\<rparr>) = [] \<and>
   error (handlePay (\<lambda>key fallback. fallback) (\<lambda>oid. Inl (JsError ''Failed to fetch''))
     \<lparr>order = Some \<lparr>id_o = ''o1'', status = Created, totalCents = 500,
                     createdAt = ''2024-12-01'', updatedAt = ''2024-12-01'',
                     orderItems = []\<rparr>,
       loading = False, error = None, paying = False, timeouts = [], requests = []\<rparr>) =
     Some ''Failed to fetch'' \<and>
   error (handlePay (\<lambda>key fallback. fallback) (\<lambda>oid. Inl (JsError ''Order not found''))
     \<lparr>order = Some \<lparr>id_o = ''o1'', status = Created, totalCents = 500,
                     createdAt = ''2024-12-01'', updatedAt = ''2024-12-01'',
                     orderItems = []\<rparr>,
       loading = False, error = None, paying = False, timeouts = [], requests = []\<rparr>) =
     Some ''Order not found''"
  by (simp add: handlePay_def Let_def errorMessage_of_def)

text \<open>
  Claim C8, amended. When a pay request on an order cached as created fails, the cached
  order stays, the message of the failure is set as the page's error, and one call to
  \<open>payOrder\<close> was made. Exactly when the message contains \<open>not found\<close> or \<open>404\<close>,
  one re-fetch is scheduled, 1000 ms later; any other failure schedules none. When that
  re-fetch is the only pending timeout and the server answers it, the cached order
  becomes the order the server sent.
\<close>

theorem handlePay_failure_refetch:
  assumes "order st = Some ord" and "status ord = Created"
    and "payOrder (id_o ord) = Inl err"
  shows "order (handlePay t payOrder st) = Some ord \<and>
     paying (handlePay t payOrder st) = False \<and>
     requests (handlePay t payOrder st) = requests st @ [PayOrder (id_o ord)] \<and>
     error (handlePay t payOrder st) =
       Some (errorMessage_of err (t ''order.paymentError'' ''Failed to process payment'')) \<and>
     timeouts (handlePay t payOrder st) =
       timeouts st @
         (if str_includes
               (errorMessage_of err (t ''order.paymentError'' ''Failed to process payment''))
               ''not found'' \<or>
             str_includes
               (errorMessage_of err (t ''order.paymentError'' ''Failed to process payment''))
               ''404''
          then [(1000, LoadOrder)] else []) \<and>
     ((str_includes
         (errorMessage_of err (t ''order.paymentError'' ''Failed to process payment''))
         ''not found'' \<or>
       str_includes
         (errorMessage_of err (t ''order.paymentError'' ''Failed to process payment''))
         ''404'') \<and>
      timeouts st = [] \<and> oid \<noteq> [] \<and> getOrder oid = Inr fetched \<longrightarrow>
        order (run_timeout (Some oid) getOrder (handlePay t payOrder st)) = Some fetched \<and>
        timeouts (run_timeout (Some oid) getOrder (handlePay t payOrder st)) = [] \<and>
        requests (run_timeout (Some oid) getOrder (handlePay t payOrder st)) =
          requests st @ [PayOrder (id_o ord), GetOrder oid])"
  using assms by (auto simp: handlePay_def Let_def run_timeout_def loadOrder_def)

theorem handlePay_failure_refetch_witness:
  "timeouts (handlePay (\<lambda>key fallback. fallback) (\<lambda>oid. Inl (JsError ''Order not found''))
     \<lparr>order = Some \<lparr>id_o = ''o1'', status = Created, totalCents = 500,
                     createdAt = ''2024-12-01'', updatedAt = ''2024-12-01'',
                     orderItems = []\<rparr>,
       loading = False, error = None, paying = False, timeouts = [], requests = []\<rparr>) =
     [(1000, LoadOrder)] \<and>
   order (run_timeout (Some ''o1'')
       (\<lambda>oid. Inr \<lparr>id_o = ''o1'', status = Paid, totalCents = 500,
                    createdAt = ''2024-12-01'', updatedAt = ''2024-12-02'',
                    orderItems = []\<rparr>)
       (handlePay (\<lambda>key fallback. fallback) (\<lambda>oid. Inl (JsError ''Order not found''))
          \<lparr>order = Some \<lparr>id_o = ''o1'', status = Created, totalCents = 500,
                          createdAt = ''2024-12-01'', updatedAt = ''2024-12-01'',
                          orderItems = []\<rparr>,
            loading = False, error = None, paying = False, timeouts = [],
            requests = []\<rparr>)) =
     Some \<lparr>id_o = ''o1'', status = Paid, totalCents = 500,
            createdAt = ''2024-12-01'', updatedAt = ''2024-12-02'', orderItems = []\<rparr>"
  using
    handlePay_failure_refetch
      [where st = "\<lparr>order = Some \<lparr>id_o = ''o1'', status = Created, totalCents = 500,
                                    createdAt = ''2024-12-01'', updatedAt = ''2024-12-01'',
                                    orderItems = []\<rparr>,
                      loading = False, error = None, paying = False, timeouts = [],
                      requests = []\<rparr>"
         and ord = "\<lparr>id_o = ''o1'', status = Created, totalCents = 500,
                     createdAt = ''2024-12-01'', updatedAt = ''2024-12-01'',
                     orderItems = []\<rparr>"
         and payOrder = "\<lambda>oid. Inl (JsError ''Order not found'')"
         and err = "JsError ''Order not found''"
         and t = "\<lambda>key fallback. fallback"
         and oid = "''o1''"
         and getOrder = "\<lambda>oid. Inr \<lparr>id_o = ''o1'', status = Paid, totalCents = 500,
                                      createdAt = ''2024-12-01'', updatedAt = ''2024-12-02'',
                                      orderItems = []\<rparr>"
         and fetched = "\<lparr>id_o = ''o1'', status = Paid, totalCents = 500,
                         createdAt = ''2024-12-01'', updatedAt = ''2024-12-02'',
                         orderItems = []\<rparr>"]
  by (simp add: errorMessage_of_def)

section \<open>Properties of the checkout\<close>

text \<open>
  Claim C9, as the specification has it, fails for a visitor who is not signed in:
  \<open>handleCheckout\<close> tests \<open>isAuthenticated\<close> before it looks at the cart, so on an
  empty cart it sends the visitor to \<open>/login\<close> and sets no error.
\<close>

theorem handleCheckout_guest_redirected:
  "checkoutError (handleCheckout False (\<lambda>key fallback. fallback)
       (\<lambda>body. Inl (JsError ''unreachable''))
       \<lparr>cartItems = [], checkingOut = False, checkoutError = None, navigations = [],
         createOrderCalls = []\<rparr>) = None \<and>
   navigations (handleCheckout False (\<lambda>key fallback. fallback)
       (\<lambda>body. Inl (JsError ''unreachable''))
       \<lparr>cartItems = [], checkingOut = False, checkoutError = None, navigations = [],
         createOrderCalls = []\<rparr>) = [''/login'']"
  by (simp add: handleCheckout_def)

text \<open>
  Claim C9, amended. For a signed-in user, \<open>handleCheckout\<close> on a cart without lines
  sets the empty-cart error and changes nothing else (no call to \<open>createOrder\<close>), in
  particular right after \<open>clearCart\<close>. For a visitor who is not signed in it only
  navigates to \<open>/login\<close>. And whenever \<open>createOrder\<close> is rejected, the items of the
  cart are the ones before the call.
\<close>

theorem handleCheckout_rejections:
  "(cartItems st = [] \<longrightarrow>
      handleCheckout True t createOrder st =
        st\<lparr>checkoutError := Some (t ''cart.emptyCart'' ''Your cart is empty'')\<rparr>) \<and>
   handleCheckout True t createOrder (st\<lparr>cartItems := clearCart (cartItems st)\<rparr>) =
     st\<lparr>cartItems := [],
        checkoutError := Some (t ''cart.emptyCart'' ''Your cart is empty'')\<rparr> \<and>
   handleCheckout False t createOrder st =
     st\<lparr>navigations := navigations st @ [''/login'']\<rparr> \<and>
   (createOrder (map (\<lambda>item. (productId item, quantity item)) (cartItems st)) = Inl err \<longrightarrow>
      cartItems (handleCheckout isAuthenticated t createOrder st) = cartItems st)"
  by (auto simp: handleCheckout_def Let_def clearCart_def)

theorem handleCheckout_rejections_witness:
  "handleCheckout True (\<lambda>key fallback. fallback) (\<lambda>body. Inl (JsError ''Insufficient stock''))
     \<lparr>cartItems = [], checkingOut = False, checkoutError = None, navigations = [],
       createOrderCalls = []\<rparr> =
     \<lparr>cartItems = [], checkingOut = False, checkoutError = Some ''Your cart is empty'',
       navigations = [], createOrderCalls = []\<rparr> \<and>
   cartItems (handleCheckout True (\<lambda>key fallback. fallback)
       (\<lambda>body. Inl (JsError ''Insufficient stock''))
       \<lparr>cartItems = [\<lparr>productId = ''p1'', name = ''Star'', priceCents = 250,
                       imageBase64 = Null, quantity = 2, stock = 3\<rparr>],
         checkingOut = False, checkoutError = None, navigations = [],
         createOrderCalls = []\<rparr>) =
     [\<lparr>productId = ''p1'', name = ''Star'', priceCents = 250, imageBase64 = Null,
       quantity = 2, stock = 3\<rparr>]"
  using
    handleCheckout_rejections
      [where st = "\<lparr>cartItems = [], checkingOut = False, checkoutError = None,
                      navigations = [], createOrderCalls = []\<rparr>"
         and t = "\<lambda>key fallback. fallback"
         and createOrder = "\<lambda>body. Inl (JsError ''Insufficient stock'')"
         and err = "JsError ''Insufficient stock''"
         and isAuthenticated = True]
    handleCheckout_rejections
      [where st = "\<lparr>cartItems = [\<lparr>productId = ''p1'', name = ''Star'', priceCents = 250,
                                    imageBase64 = Null, quantity = 2, stock = 3\<rparr>],
                      checkingOut = False, checkoutError = None, navigations = [],
                      createOrderCalls = []\<rparr>"
         and t = "\<lambda>key fallback. fallback"
         and createOrder = "\<lambda>body. Inl (JsError ''Insufficient stock'')"
         and err = "JsError ''Insufficient stock''"
         and isAuthenticated = True]
  by simp

end
